theory Spec2Isabelle
  imports Complex_Main "HOL-Library.Sublist"
begin

section \<open>Values of the host language\<close>

text \<open>
  The events provider (\<^verbatim>\<open>contexts/EventsContext.tsx\<close>) and the service layer
  (\<^verbatim>\<open>services/firebaseService.ts\<close>) build their objects from untyped backend documents
  and from parsed JSON, so that part of the program is modelled over dynamic values.
  A \<^verbatim>\<open>Date\<close> is its millisecond instant, or the invalid date that
  \<^verbatim>\<open>new Date(undefined)\<close> yields.  A backend \<^verbatim>\<open>Timestamp\<close> is represented by the
  millisecond instant that its \<^verbatim>\<open>toDate()\<close> method returns.  An object is a finite
  map from property names to values; an absent property reads as \<^verbatim>\<open>undefined\<close>.
  Numbers are only copied by the dynamic part, never computed with.
\<close>

datatype jsdate = DateMs int | InvalidDate

datatype jsval =
    Null
  | Bool bool
  | Num real
  | Str string
  | Timestamp int
  | DateV jsdate
  | Arr "jsval list"
  | Obj "string \<Rightarrow> jsval option"

type_synonym obj = "string \<Rightarrow> jsval option"

text \<open>
  Exceptions: \<^verbatim>\<open>new Error(message)\<close> as thrown by the source, the \<^verbatim>\<open>TypeError\<close> of a
  property access or method call on a value that does not have it, and the
  \<^verbatim>\<open>SyntaxError\<close> of \<^verbatim>\<open>JSON.parse\<close>.
\<close>

datatype error = Error string | TypeError | SyntaxError

section \<open>The typed data model (\<^verbatim>\<open>types/index.ts\<close>)\<close>

datatype EventType = Yoga | Run | Match

datatype DifficultyLevel =
  Beginner | Intermediate | Advanced | AllAges | Low | High | Mixed | Amateur | FamilyAndKids

record Coordinates =
  latitude :: real
  longitude :: real

record EventLocation =
  address :: string
  coordinates :: Coordinates

text \<open>
  \<^verbatim>\<open>User.role\<close> is declared \<^verbatim>\<open>'user' | 'organizer'\<close> but is filled from the user's
  backend document (\<^verbatim>\<open>userData.role || 'user'\<close>), so it is kept as the string it is
  at run time.
\<close>

record User =
  uid :: string
  email :: string
  displayName :: string
  photoURL :: "string option"
  bio :: "string option"
  role :: string
  userCreatedAt :: jsdate
  userUpdatedAt :: jsdate

text \<open>
  The interface \<^verbatim>\<open>Event\<close> in three layers, following the types the source itself
  uses: \<^verbatim>\<open>EventData\<close> is the argument type of \<^verbatim>\<open>createEvent\<close>
  (\<^verbatim>\<open>Omit<Event, 'id' | 'hostId' | 'hostName' | 'rsvpCount' | 'rsvpList' | 'createdAt' |
  'updatedAt'>\<close>), \<^verbatim>\<open>EventDoc\<close> is \<^verbatim>\<open>Omit<Event, 'id'>\<close>, the body written by
  \<^verbatim>\<open>addDoc\<close>, and \<^verbatim>\<open>Event\<close> adds the identifier.  \<^verbatim>\<open>rsvpCount\<close> is a
  \<^verbatim>\<open>number\<close> that the code only changes by \<open>\<plusminus> 1\<close>; it is an integer here.
\<close>

record EventData =
  title :: string
  etype :: EventType
  dateTime :: jsdate
  duration :: int
  location :: EventLocation
  difficulty :: DifficultyLevel
  imageURL :: "string option"
  description :: string
  shortDescription :: string

record EventDoc = EventData +
  hostId :: string
  hostName :: string
  rsvpCount :: int
  rsvpList :: "string list"
  createdAt :: jsdate
  updatedAt :: jsdate

record Event = EventDoc +
  event_id :: string

section \<open>Numbers of the host language\<close>

text \<open>
  \<^verbatim>\<open>rsvpCount\<close> is a \<^verbatim>\<open>number\<close>, a double.  The model keeps the integer-valued ones
  as integers and writes the rounding of \<^verbatim>\<open>+\<close> and \<^verbatim>\<open>-\<close> out: the exact result is
  rounded to the nearest double, a tie going to the one with the even significand.
  Every integer of magnitude up to \<open>2 ^ 53\<close> is a double; above that the doubles are
  \<open>2 ^ (bitlen m - 53)\<close> apart, \<open>bitlen m\<close> being the number of binary digits of the
  magnitude \<open>m\<close>.  (Overflow to infinity, far above any count, is not modelled.)
\<close>

fun bitlen :: "nat \<Rightarrow> nat" where
  "bitlen n = (if n = 0 then 0 else Suc (bitlen (n div 2)))"

declare bitlen.simps [simp del]

definition double_round :: "int \<Rightarrow> int" where
  "double_round x =
     (let m = nat \<bar>x\<bar>;
          u = 2 ^ (bitlen m - 53);
          q = m div u;
          r = m mod u;
          m' = (if u < 2 * r \<or> (2 * r = u \<and> odd q) then (q + 1) * u else q * u)
      in sgn x * int m')"

definition js_add :: "int \<Rightarrow> int \<Rightarrow> int" where
  "js_add a b = double_round (a + b)"

definition js_sub :: "int \<Rightarrow> int \<Rightarrow> int" where
  "js_sub a b = double_round (a - b)"

section \<open>Calls to the document store\<close>

text \<open>
  A document reference is its path, the list of the path's segments.
  \<^verbatim>\<open>doc(db, 'events', eventId)\<close> is a function of the backend SDK, which is not part
  of this repository: it throws an error with a message (\<open>Inl\<close>) or returns a
  reference.  The operations below take it as a parameter \<open>doc\<close>.

  \<open>firestore_doc\<close> is what the SDK's function computes, modelled from the SDK's
  own source: a path argument that contains \<^verbatim>\<open>//\<close> is refused; each argument is split
  at \<^verbatim>\<open>/\<close> and its empty pieces are dropped; a path with an odd number of segments
  is not a document path and is refused.
\<close>

type_synonym doc_ref = "string list"

type_synonym doc_fn = "string \<Rightarrow> string \<Rightarrow> string + doc_ref"

fun split_slash :: "string \<Rightarrow> string list" where
  "split_slash [] = [[]]"
| "split_slash (c # cs) =
     (if c = CHR ''/'' then [] # split_slash cs
      else (case split_slash cs of
              [] \<Rightarrow> [[c]]
            | seg # segs \<Rightarrow> (c # seg) # segs))"

definition path_segments :: "string \<Rightarrow> string list" where
  "path_segments p = filter (\<lambda>seg. seg \<noteq> []) (split_slash p)"

fun join_slash :: "string list \<Rightarrow> string" where
  "join_slash [] = []"
| "join_slash [seg] = seg"
| "join_slash (seg # segs) = seg @ ''/'' @ join_slash segs"

fun decimal :: "nat \<Rightarrow> string" where
  "decimal n =
     (if n < 10 then [char_of (48 + n)]
      else decimal (n div 10) @ [char_of (48 + n mod 10)])"

declare decimal.simps [simp del]

definition firestore_doc :: doc_fn where
  "firestore_doc path eventId =
     (if sublist ''//'' path then
        Inl (''Invalid segment ('' @ path @ ''). Paths must not contain // in them.'')
      else if sublist ''//'' eventId then
        Inl (''Invalid segment ('' @ eventId @ ''). Paths must not contain // in them.'')
      else
        (let segments = path_segments path @ path_segments eventId
         in if even (length segments) then Inr segments
            else Inl (''Invalid document reference. Document references must have an even ''
                      @ ''number of segments, but '' @ join_slash segments @ '' has ''
                      @ decimal (length segments) @ ''.'')))"

text \<open>
  The two field transforms of the backend SDK that \<^verbatim>\<open>toggleRSVP\<close> sends, the partial
  update it builds from them, and the calls the provider issues:
  \<^verbatim>\<open>updateDoc(eventRef, {...})\<close> and \<^verbatim>\<open>addDoc(collection(db, 'events'), newEvent)\<close>.
\<close>

datatype array_op = ArrayUnion string | ArrayRemove string

record rsvp_update =
  upd_rsvpList :: array_op
  upd_rsvpCount :: int
  upd_updatedAt :: jsdate

datatype firestore_call =
    UpdateDoc doc_ref rsvp_update
  | AddDoc string EventDoc

section \<open>The provider's state\<close>

text \<open>
  \<^verbatim>\<open>EventsProvider\<close> holds the list \<^verbatim>\<open>events\<close> and the flag \<^verbatim>\<open>loading\<close>.  Its effects
  on the outside are the calls it sends to the document store (\<open>outbox\<close>, oldest
  first) and its writes to the local durable cache (\<^verbatim>\<open>AsyncStorage\<close>): \<open>cache\<close> is
  what the cache holds under each key, \<open>pending\<close> the writes (key, text) that have been
  handed to the cache and have not completed yet, oldest first.  The element type of
  the list is a parameter: the snapshot handler and the cache loader put untyped
  objects into it (\<open>obj\<close>), which the operations that read it use at the interface
  type \<^verbatim>\<open>Event\<close> (the source casts with \<^verbatim>\<open>as Event\<close>).
\<close>

record 'e provider =
  events :: "'e list"
  loading :: bool
  cache :: "string \<Rightarrow> string option"
  pending :: "(string \<times> string) list"
  outbox :: "firestore_call list"

section \<open>RSVP toggle\<close>

text \<open>
  The object literal passed to \<^verbatim>\<open>updateDoc\<close> in the two branches of
  \<^verbatim>\<open>toggleRSVP\<close>, with \<^verbatim>\<open>event.rsvpCount - 1\<close> and \<^verbatim>\<open>event.rsvpCount + 1\<close> computed on
  numbers of the host language; \<open>now\<close> is the clock reading that \<^verbatim>\<open>new Date()\<close> takes.
\<close>

definition rsvp_write :: "string \<Rightarrow> int \<Rightarrow> Event \<Rightarrow> rsvp_update" where
  "rsvp_write u now e =
     (if u \<in> set (rsvpList e)
      then \<lparr>upd_rsvpList = ArrayRemove u, upd_rsvpCount = js_sub (rsvpCount e) 1,
            upd_updatedAt = DateMs now\<rparr>
      else \<lparr>upd_rsvpList = ArrayUnion u, upd_rsvpCount = js_add (rsvpCount e) 1,
            upd_updatedAt = DateMs now\<rparr>)"

text \<open>
  \<^verbatim>\<open>toggleRSVP(eventId)\<close>.  \<open>usr\<close> is the signed-in user of the auth context
  (\<open>None\<close> for \<^verbatim>\<open>null\<close>); \<open>doc\<close> is the SDK's function; \<open>resp\<close> is the backend's
  answer to \<^verbatim>\<open>updateDoc\<close>: \<open>None\<close> when the promise resolves, \<open>Some m\<close> when it
  rejects with message \<open>m\<close>.  The result pairs what the call throws (\<open>Inl\<close>) or
  returns with the state afterwards.  Inside the \<^verbatim>\<open>try\<close> the reference is built
  first, then the event is looked up.  The \<^verbatim>\<open>catch\<close> clause rethrows
  \<^verbatim>\<open>new Error(error.message)\<close>: an error of \<^verbatim>\<open>doc\<close> or of \<^verbatim>\<open>updateDoc\<close> with its
  message, and \<^verbatim>\<open>'Event not found'\<close> as an error with the same message.
\<close>

definition toggleRSVP ::
  "doc_fn \<Rightarrow> User option \<Rightarrow> string \<Rightarrow> int \<Rightarrow> string option \<Rightarrow> Event provider
     \<Rightarrow> (error + unit) \<times> Event provider" where
  "toggleRSVP doc usr eventId now resp s =
     (case usr of
        None \<Rightarrow> (Inl (Error ''User must be logged in''), s)
      | Some u \<Rightarrow>
          (case doc ''events'' eventId of
             Inl m \<Rightarrow> (Inl (Error m), s)
           | Inr eventRef \<Rightarrow>
               (case find (\<lambda>e. event_id e = eventId) (events s) of
                  None \<Rightarrow> (Inl (Error ''Event not found''), s)
                | Some e \<Rightarrow>
                    (let s' = s\<lparr>outbox := outbox s @ [UpdateDoc eventRef (rsvp_write (uid u) now e)]\<rparr>
                     in case resp of
                          None \<Rightarrow> (Inr (), s')
                        | Some m \<Rightarrow> (Inl (Error m), s')))))"

section \<open>The document store\<close>












section \<open>Creating an event, manual refresh\<close>

text \<open>
  \<^verbatim>\<open>createEvent(eventData)\<close>: \<open>t1\<close> and \<open>t2\<close> are the clock readings of the two
  \<^verbatim>\<open>new Date()\<close>, \<open>resp\<close> the backend's answer to \<^verbatim>\<open>addDoc\<close> as in \<open>toggleRSVP\<close>.
  The fields after the spread \<^verbatim>\<open>...eventData\<close> extend the record.
\<close>

definition createEvent ::
  "User option \<Rightarrow> EventData \<Rightarrow> int \<Rightarrow> int \<Rightarrow> string option \<Rightarrow> 'e provider
     \<Rightarrow> (error + unit) \<times> 'e provider" where
  "createEvent usr eventData t1 t2 resp s =
     (case usr of
        None \<Rightarrow> (Inl (Error ''User must be logged in''), s)
      | Some u \<Rightarrow>
          if role u \<noteq> ''organizer'' then (Inl (Error ''Only organizers can create events''), s)
          else
            (let newEvent = EventData.extend eventData
                   (EventDoc.fields (uid u) (displayName u) 0 [] (DateMs t1) (DateMs t2));
                 s' = s\<lparr>outbox := outbox s @ [AddDoc ''events'' newEvent]\<rparr>
             in case resp of
                  None \<Rightarrow> (Inr (), s')
                | Some m \<Rightarrow> (Inl (Error m), s')))"

text \<open>\<^verbatim>\<open>refreshEvents\<close>: its whole body is \<^verbatim>\<open>setLoading(true)\<close>.\<close>

definition refreshEvents :: "'e provider \<Rightarrow> 'e provider" where
  "refreshEvents s = s\<lparr>loading := True\<rparr>"

section \<open>Search and filter projection (\<^verbatim>\<open>EventsFeed\<close>)\<close>

record DateRange =
  range_start :: jsdate
  range_end :: jsdate

record Filters =
  filter_type :: "EventType option"
  filter_difficulty :: "DifficultyLevel option"
  dateRange :: "DateRange option"

text \<open>
  The relational operators on two dates compare their time values; a comparison with
  the invalid date (\<^verbatim>\<open>NaN\<close>) is false.  \<open>date_le a b\<close> is \<^verbatim>\<open>a <= b\<close>, and
  \<^verbatim>\<open>b >= a\<close> likewise.
\<close>

fun date_le :: "jsdate \<Rightarrow> jsdate \<Rightarrow> bool" where
  "date_le (DateMs a) (DateMs b) = (a \<le> b)"
| "date_le _ _ = False"

text \<open>
  The predicate of the search filter.  \<^verbatim>\<open>s.includes(q)\<close> on strings is the contiguous
  substring test \<open>sublist q s\<close>.  The two string built-ins the effect calls,
  \<^verbatim>\<open>toLowerCase\<close> and \<^verbatim>\<open>trim\<close>, are parameters of the model, so that nothing proved
  below depends on how the host language lower-cases or what it counts as white space.
\<close>

definition matches_search :: "(string \<Rightarrow> string) \<Rightarrow> string \<Rightarrow> Event \<Rightarrow> bool" where
  "matches_search toLowerCase searchQuery e =
     (sublist (toLowerCase searchQuery) (toLowerCase (title e)) \<or>
      sublist (toLowerCase searchQuery) (toLowerCase (description e)) \<or>
      sublist (toLowerCase searchQuery) (toLowerCase (address (location e))))"

definition in_range :: "DateRange \<Rightarrow> Event \<Rightarrow> bool" where
  "in_range r e = (date_le (range_start r) (dateTime e) \<and> date_le (dateTime e) (range_end r))"

text \<open>
  The body of the filter effect: the list handed to \<^verbatim>\<open>setFilteredEvents\<close>.  An empty
  string is falsy, so \<^verbatim>\<open>if (searchQuery.trim())\<close> tests for a non-empty result; the
  members of \<^verbatim>\<open>EventType\<close> and \<^verbatim>\<open>DifficultyLevel\<close> are non-empty strings, so
  \<^verbatim>\<open>if (filters.type)\<close> tests for a value other than \<^verbatim>\<open>null\<close>.
\<close>

definition applyFilters ::
  "(string \<Rightarrow> string) \<Rightarrow> (string \<Rightarrow> string) \<Rightarrow> Event list \<Rightarrow> string \<Rightarrow> Filters \<Rightarrow> Event list" where
  "applyFilters toLowerCase trim evs searchQuery filters =
     (let filtered = evs;
          filtered = (if trim searchQuery \<noteq> []
                      then filter (matches_search toLowerCase searchQuery) filtered
                      else filtered);
          filtered = (case filter_type filters of
                        Some t \<Rightarrow> filter (\<lambda>e. etype e = t) filtered
                      | None \<Rightarrow> filtered);
          filtered = (case filter_difficulty filters of
                        Some d \<Rightarrow> filter (\<lambda>e. difficulty e = d) filtered
                      | None \<Rightarrow> filtered);
          filtered = (case dateRange filters of
                        Some r \<Rightarrow> filter (in_range r) filtered
                      | None \<Rightarrow> filtered)
      in filtered)"

text \<open>
  The four tests of the effect taken together: what an event has to satisfy to be in
  the list that \<open>applyFilters\<close> returns.
\<close>

definition passes_filters ::
  "(string \<Rightarrow> string) \<Rightarrow> (string \<Rightarrow> string) \<Rightarrow> string \<Rightarrow> Filters \<Rightarrow> Event \<Rightarrow> bool" where
  "passes_filters toLowerCase trim searchQuery filters e =
     ((trim searchQuery = [] \<or> matches_search toLowerCase searchQuery e)
      \<and> (case filter_type filters of None \<Rightarrow> True | Some t \<Rightarrow> etype e = t)
      \<and> (case filter_difficulty filters of None \<Rightarrow> True | Some d \<Rightarrow> difficulty e = d)
      \<and> (case dateRange filters of None \<Rightarrow> True | Some r \<Rightarrow> in_range r e))"

section \<open>Decoding backend documents\<close>

text \<open>
  A document of a snapshot: its backend-assigned identifier \<^verbatim>\<open>doc.id\<close> and its body
  \<^verbatim>\<open>doc.data()\<close>.
\<close>

record snapshot_doc =
  doc_id :: string
  data :: obj

text \<open>
  \<^verbatim>\<open>v.toDate()\<close> for a property \<open>v\<close> of the body: only a timestamp has the method;
  on \<^verbatim>\<open>undefined\<close>, \<^verbatim>\<open>null\<close> and every other value the call throws a
  \<^verbatim>\<open>TypeError\<close>.
\<close>

fun toDate :: "jsval option \<Rightarrow> error + jsval" where
  "toDate (Some (Timestamp ms)) = Inr (DateV (DateMs ms))"
| "toDate _ = Inl TypeError"

text \<open>
  The object literal
  \<^verbatim>\<open>{ id: doc.id, ...data, dateTime: data.dateTime.toDate(), createdAt:
  data.createdAt.toDate(), updatedAt: data.updatedAt.toDate() }\<close>
  that the snapshot handler, \<^verbatim>\<open>getEvents\<close> and \<^verbatim>\<open>getEvent\<close> all build.  Properties
  are set left to right, a later one replacing an earlier one of the same name:
  \<open>m ++ n\<close> is \<open>m\<close> overridden by \<open>n\<close>.
\<close>

definition decodeDoc :: "snapshot_doc \<Rightarrow> error + obj" where
  "decodeDoc d =
     (case toDate (data d ''dateTime'') of
        Inl e \<Rightarrow> Inl e
      | Inr dt \<Rightarrow>
          (case toDate (data d ''createdAt'') of
             Inl e \<Rightarrow> Inl e
           | Inr ca \<Rightarrow>
               (case toDate (data d ''updatedAt'') of
                  Inl e \<Rightarrow> Inl e
                | Inr ua \<Rightarrow>
                    Inr ((([''id'' \<mapsto> Str (doc_id d)] ++ data d)
                           (''dateTime'' \<mapsto> dt))
                           (''createdAt'' \<mapsto> ca, ''updatedAt'' \<mapsto> ua)))))"

text \<open>
  The documents on which none of the three \<^verbatim>\<open>toDate()\<close> calls throws: those whose
  \<^verbatim>\<open>dateTime\<close>, \<^verbatim>\<open>createdAt\<close> and \<^verbatim>\<open>updatedAt\<close> are timestamps.
\<close>

fun is_timestamp :: "jsval option \<Rightarrow> bool" where
  "is_timestamp (Some (Timestamp ms)) = True"
| "is_timestamp _ = False"

definition has_timestamps :: "snapshot_doc \<Rightarrow> bool" where
  "has_timestamps d =
     (is_timestamp (data d ''dateTime'') \<and> is_timestamp (data d ''createdAt'')
      \<and> is_timestamp (data d ''updatedAt''))"

text \<open>
  \<^verbatim>\<open>snapshot.forEach((doc) => { eventsData.push(...) })\<close>: the documents in the
  snapshot's order, each decoded and pushed; the first one that throws ends the loop.
\<close>

fun forEach_push :: "snapshot_doc list \<Rightarrow> obj list \<Rightarrow> error + obj list" where
  "forEach_push [] eventsData = Inr eventsData"
| "forEach_push (d # ds) eventsData =
     (case decodeDoc d of
        Inl e \<Rightarrow> Inl e
      | Inr ev \<Rightarrow> forEach_push ds (eventsData @ [ev]))"

text \<open>
  \<^verbatim>\<open>FirebaseService.getEvents\<close> and \<^verbatim>\<open>getEvent\<close>, given what the backend returns for
  the query and for the document read (\<open>None\<close>: the document does not exist).  Both
  log and rethrow.
\<close>

definition getEvents :: "snapshot_doc list \<Rightarrow> error + obj list" where
  "getEvents docs = forEach_push docs []"

definition getEvent :: "snapshot_doc option \<Rightarrow> error + obj option" where
  "getEvent eventDoc =
     (case eventDoc of
        None \<Rightarrow> Inr None
      | Some d \<Rightarrow> (case decodeDoc d of Inl e \<Rightarrow> Inl e | Inr ev \<Rightarrow> Inr (Some ev)))"

section \<open>The snapshot handler and the local cache\<close>

text \<open>
  \<^verbatim>\<open>cacheEvents(eventsData)\<close>: inside its \<^verbatim>\<open>try\<close>, \<^verbatim>\<open>JSON.stringify(eventsData)\<close> is
  evaluated and the text is handed to \<^verbatim>\<open>AsyncStorage.setItem\<close> under the key
  \<^verbatim>\<open>events\<close>.  The serialiser is a parameter (\<open>None\<close>: it throws); when it throws,
  the \<^verbatim>\<open>catch\<close> logs the error and nothing is written.  The snapshot handler does not
  await the call, so the write is pending when the handler returns.

  \<open>setItem_done ok\<close> is the completion of the oldest pending write: when the cache
  accepts it (\<open>ok\<close>) the text replaces what the key held; when the cache refuses it,
  the rejection is caught and logged inside \<^verbatim>\<open>cacheEvents\<close> and the key keeps what it
  held.
\<close>

definition cacheEvents ::
  "(obj list \<Rightarrow> string option) \<Rightarrow> obj list \<Rightarrow> obj provider \<Rightarrow> obj provider" where
  "cacheEvents JSON_stringify eventsData s =
     (case JSON_stringify eventsData of
        None \<Rightarrow> s
      | Some txt \<Rightarrow> s\<lparr>pending := pending s @ [(''events'', txt)]\<rparr>)"

definition setItem_done :: "bool \<Rightarrow> 'e provider \<Rightarrow> 'e provider" where
  "setItem_done ok s =
     (case pending s of
        [] \<Rightarrow> s
      | (k, txt) # rest \<Rightarrow>
          if ok then s\<lparr>pending := rest, cache := (cache s)(k \<mapsto> txt)\<rparr>
          else s\<lparr>pending := rest\<rparr>)"

text \<open>
  The two callbacks handed to \<^verbatim>\<open>onSnapshot\<close>.  The first receives the documents of a
  snapshot in the order the backend delivers them; it returns what it throws, if
  anything, and the state afterwards.  All its state changes stand after the loop, so
  a decoding error leaves the state as it was.
\<close>

definition onSnapshot_next ::
  "(obj list \<Rightarrow> string option) \<Rightarrow> snapshot_doc list \<Rightarrow> obj provider
     \<Rightarrow> error option \<times> obj provider" where
  "onSnapshot_next JSON_stringify snapshot s =
     (case forEach_push snapshot [] of
        Inl e \<Rightarrow> (Some e, s)
      | Inr eventsData \<Rightarrow>
          (None, cacheEvents JSON_stringify eventsData (s\<lparr>events := eventsData, loading := False\<rparr>)))"

definition onSnapshot_error :: "'e provider \<Rightarrow> 'e provider" where
  "onSnapshot_error s = s\<lparr>loading := False\<rparr>"

text \<open>
  The query of the subscription is \<^verbatim>\<open>orderBy('dateTime', 'asc')\<close>: the backend delivers
  the documents in ascending order of their \<^verbatim>\<open>dateTime\<close> timestamps, and so in
  ascending order of the instants that \<^verbatim>\<open>toDate()\<close> gives for them.
\<close>

fun timestamp_le :: "jsval option \<Rightarrow> jsval option \<Rightarrow> bool" where
  "timestamp_le (Some (Timestamp a)) (Some (Timestamp b)) = (a \<le> b)"
| "timestamp_le _ _ = False"

definition ordered_by_dateTime :: "snapshot_doc list \<Rightarrow> bool" where
  "ordered_by_dateTime docs =
     sorted_wrt (\<lambda>a b. timestamp_le (data a ''dateTime'') (data b ''dateTime'')) docs"

text \<open>\<^verbatim>\<open>a.dateTime <= b.dateTime\<close> on two objects of the in-memory list.\<close>

definition dateTime_le :: "obj \<Rightarrow> obj \<Rightarrow> bool" where
  "dateTime_le a b =
     (case (a ''dateTime'', b ''dateTime'') of
        (Some (DateV x), Some (DateV y)) \<Rightarrow> date_le x y
      | _ \<Rightarrow> False)"

text \<open>
  What \<^verbatim>\<open>JSON.parse\<close> returns: the values of JSON.  The parser itself is a parameter
  of the model (\<open>None\<close>: it throws a \<^verbatim>\<open>SyntaxError\<close>), and so is the \<^verbatim>\<open>Date\<close>
  constructor applied to a parsed value or to \<^verbatim>\<open>undefined\<close>, taken where it returns a
  date.  (On a parsed object that cannot be converted to a primitive value the
  constructor throws instead; that exception ends in the same \<^verbatim>\<open>catch\<close> as the others
  of the \<^verbatim>\<open>try\<close> block.)
\<close>

datatype json =
    JNull
  | JBool bool
  | JNum real
  | JStr string
  | JArr "json list"
  | JObj "string \<Rightarrow> json option"

primrec of_json :: "json \<Rightarrow> jsval" where
  "of_json JNull = Null"
| "of_json (JBool b) = Bool b"
| "of_json (JNum n) = Num n"
| "of_json (JStr s) = Str s"
| "of_json (JArr vs) = Arr (map of_json vs)"
| "of_json (JObj m) = Obj (\<lambda>k. map_option of_json (m k))"

text \<open>The own properties of an array: its elements under their indices in decimal.\<close>

definition index_keys :: "jsval list \<Rightarrow> obj" where
  "index_keys vs = map_of (zip (map decimal [0..<length vs]) vs)"

text \<open>
  Object spread \<^verbatim>\<open>{...event}\<close> of a parsed value: the own enumerable properties of
  an object, the elements of an array and the characters of a string under their
  indices, and nothing for \<^verbatim>\<open>null\<close>, a number or a boolean.
\<close>

fun spread :: "json \<Rightarrow> obj" where
  "spread (JObj m) = (\<lambda>k. map_option of_json (m k))"
| "spread (JArr vs) = index_keys (map of_json vs)"
| "spread (JStr s) = index_keys (map (\<lambda>c. Str [c]) s)"
| "spread _ = (\<lambda>k. None)"

text \<open>
  The property reads \<^verbatim>\<open>event.dateTime\<close>, \<^verbatim>\<open>event.createdAt\<close>, \<^verbatim>\<open>event.updatedAt\<close>:
  they throw on \<^verbatim>\<open>null\<close>; an array, a string, a number and a boolean have no
  property of these names.
\<close>

fun get_prop :: "json \<Rightarrow> string \<Rightarrow> error + json option" where
  "get_prop JNull k = Inl TypeError"
| "get_prop (JObj m) k = Inr (m k)"
| "get_prop _ k = Inr None"

text \<open>
  The callback of \<^verbatim>\<open>.map\<close> in \<^verbatim>\<open>loadCachedEvents\<close>:
  \<^verbatim>\<open>{ ...event, dateTime: new Date(event.dateTime), createdAt: new Date(event.createdAt),
  updatedAt: new Date(event.updatedAt) }\<close>.
\<close>

definition revive :: "(json option \<Rightarrow> jsdate) \<Rightarrow> json \<Rightarrow> error + obj" where
  "revive newDate event =
     (case get_prop event ''dateTime'' of
        Inl e \<Rightarrow> Inl e
      | Inr dt \<Rightarrow>
          (case get_prop event ''createdAt'' of
             Inl e \<Rightarrow> Inl e
           | Inr ca \<Rightarrow>
               (case get_prop event ''updatedAt'' of
                  Inl e \<Rightarrow> Inl e
                | Inr ua \<Rightarrow>
                    Inr ((spread event)
                           (''dateTime'' \<mapsto> DateV (newDate dt),
                            ''createdAt'' \<mapsto> DateV (newDate ca),
                            ''updatedAt'' \<mapsto> DateV (newDate ua))))))"

text \<open>
  \<^verbatim>\<open>parsed.map(callback)\<close>: only an array has the method (no JSON value is callable,
  so an object with a property \<^verbatim>\<open>map\<close> throws as well); the elements are visited in
  order and the first exception ends the call.
\<close>

fun map_revive :: "(json option \<Rightarrow> jsdate) \<Rightarrow> json list \<Rightarrow> error + obj list" where
  "map_revive newDate [] = Inr []"
| "map_revive newDate (v # vs) =
     (case revive newDate v of
        Inl e \<Rightarrow> Inl e
      | Inr ev \<Rightarrow> (case map_revive newDate vs of Inl e \<Rightarrow> Inl e | Inr evs \<Rightarrow> Inr (ev # evs)))"

definition js_map :: "(json option \<Rightarrow> jsdate) \<Rightarrow> json \<Rightarrow> error + obj list" where
  "js_map newDate v = (case v of JArr vs \<Rightarrow> map_revive newDate vs | _ \<Rightarrow> Inl TypeError)"

text \<open>
  The \<^verbatim>\<open>try\<close> block of \<^verbatim>\<open>loadCachedEvents\<close>: \<^verbatim>\<open>getItem\<close> yields \<^verbatim>\<open>null\<close> for
  an absent key; \<^verbatim>\<open>null\<close> and the empty string are falsy.
\<close>

definition loadCachedEvents_try ::
  "(string \<Rightarrow> json option) \<Rightarrow> (json option \<Rightarrow> jsdate) \<Rightarrow> obj provider \<Rightarrow> error + obj provider" where
  "loadCachedEvents_try JSON_parse newDate s =
     (case cache s ''events'' of
        None \<Rightarrow> Inr s
      | Some cachedEvents \<Rightarrow>
          if cachedEvents = [] then Inr s
          else
            (case JSON_parse cachedEvents of
               None \<Rightarrow> Inl SyntaxError
             | Some v \<Rightarrow>
                 (case js_map newDate v of
                    Inl e \<Rightarrow> Inl e
                  | Inr parsed \<Rightarrow> Inr (s\<lparr>events := parsed\<rparr>))))"

text \<open>
  \<^verbatim>\<open>loadCachedEvents\<close>: the \<^verbatim>\<open>catch\<close> clause logs the error and returns.  The first
  component is what the call throws.
\<close>

definition loadCachedEvents ::
  "(string \<Rightarrow> json option) \<Rightarrow> (json option \<Rightarrow> jsdate) \<Rightarrow> obj provider \<Rightarrow> error option \<times> obj provider" where
  "loadCachedEvents JSON_parse newDate s =
     (case loadCachedEvents_try JSON_parse newDate s of
        Inl e \<Rightarrow> (None, s)
      | Inr s' \<Rightarrow> (None, s'))"

section \<open>Sample values\<close>

text \<open>
  \<^verbatim>\<open>createMockEvent\<close> of \<^verbatim>\<open>__tests__/rsvp.test.ts\<close>, with the two overrides the tests
  pass; a user with a given uid and role; a provider that holds a given list, is not
  loading, and has an empty cache, no pending write and no calls sent; the body of a
  document as the store holds it.
\<close>

definition createMockEvent :: "int \<Rightarrow> string list \<Rightarrow> Event" where
  "createMockEvent n l =
     \<lparr>title = ''Test Yoga Session'', etype = Yoga, dateTime = DateMs 1764612000000,
      duration = 60,
      location = \<lparr>address = ''Test Park, Test City'',
                  coordinates = \<lparr>latitude = 40.7128, longitude = - 74.0060\<rparr>\<rparr>,
      difficulty = Beginner, imageURL = Some [],
      description = ''Test event description'',
      shortDescription = ''Test short description'',
      hostId = ''host-user-id'', hostName = ''Test Organizer'',
      rsvpCount = n, rsvpList = l,
      createdAt = DateMs 1735725600000, updatedAt = DateMs 1735725600000,
      event_id = ''test-event-1''\<rparr>"

definition mockUser :: "string \<Rightarrow> string \<Rightarrow> User" where
  "mockUser u r =
     \<lparr>uid = u, email = ''test@test.com'', displayName = ''Test User'', photoURL = None,
      bio = None, role = r, userCreatedAt = DateMs 1735725600000,
      userUpdatedAt = DateMs 1735725600000\<rparr>"

definition mockProvider :: "'e list \<Rightarrow> 'e provider" where
  "mockProvider evs =
     \<lparr>events = evs, loading = False, cache = (\<lambda>k. None), pending = [], outbox = []\<rparr>"

definition mockBody :: obj where
  "mockBody =
     [''title'' \<mapsto> Str ''Test Yoga Session'', ''rsvpCount'' \<mapsto> Num 0,
      ''rsvpList'' \<mapsto> Arr [], ''dateTime'' \<mapsto> Timestamp 1764612000000,
      ''createdAt'' \<mapsto> Timestamp 1735725600000, ''updatedAt'' \<mapsto> Timestamp 1735725600000]"

definition mockEventData :: EventData where
  "mockEventData = EventData.truncate (createMockEvent 0 [])"




definition mockRun :: Event where
  "mockRun =
     (createMockEvent 0 [])\<lparr>title := ''Morning Run'', etype := Run, difficulty := Advanced,
        description := ''Five kilometres'', event_id := ''test-event-2''\<rparr>"

text \<open>
  A document of the kind the schema in the README describes, whose body holds an
  \<^verbatim>\<open>id\<close> field of its own; two documents without one, the second a month later;
  and a document that lacks \<^verbatim>\<open>createdAt\<close>.
\<close>

definition idBodyDoc :: snapshot_doc where
  "idBodyDoc = \<lparr>doc_id = ''abc123'', data = mockBody(''id'' \<mapsto> Str ''event-1'')\<rparr>"

definition mockDoc :: snapshot_doc where
  "mockDoc = \<lparr>doc_id = ''abc122'', data = mockBody\<rparr>"

definition laterDoc :: snapshot_doc where
  "laterDoc = \<lparr>doc_id = ''abc125'', data = mockBody(''dateTime'' \<mapsto> Timestamp 1767290400000)\<rparr>"

definition undecodableDoc :: snapshot_doc where
  "undecodableDoc = \<lparr>doc_id = ''abc124'', data = mockBody(''createdAt'' := None)\<rparr>"

text \<open>
  Instances of the built-in parameters for the sample evaluations: lower-casing and
  trimming on ASCII, a parser that knows three texts, a serialiser that records the
  number of events, a date constructor that knows numbers.
\<close>

definition asciiLower :: "string \<Rightarrow> string" where
  "asciiLower s =
     map (\<lambda>c. if 65 \<le> (of_char c :: nat) \<and> (of_char c :: nat) \<le> 90
              then char_of (of_char c + 32 :: nat) else c) s"

definition asciiTrim :: "string \<Rightarrow> string" where
  "asciiTrim s = rev (dropWhile (\<lambda>c. c = CHR '' '') (rev (dropWhile (\<lambda>c. c = CHR '' '') s)))"

definition mockParse :: "string \<Rightarrow> json option" where
  "mockParse txt =
     (if txt = ''[{}]'' then Some (JArr [JObj (\<lambda>k. None)])
      else if txt = ''[]'' then Some (JArr [])
      else if txt = ''null'' then Some JNull
      else None)"

definition mockStringify :: "obj list \<Rightarrow> string option" where
  "mockStringify evs = Some (''['' @ decimal (length evs) @ '']'')"

definition mockNewDate :: "json option \<Rightarrow> jsdate" where
  "mockNewDate v = (case v of Some (JNum n) \<Rightarrow> DateMs (floor n) | _ \<Rightarrow> InvalidDate)"

section \<open>Properties of the RSVP toggle\<close>















lemma empty_id_doc:
  "firestore_doc ''events'' [] =
     Inl (''Invalid document reference. Document references must have an even ''
          @ ''number of segments, but events has 1.'')"
  by code_simp








text \<open>
  Claim C5 as the specification states it fails: the empty string is the id of no
  event of the list, and \<^verbatim>\<open>toggleRSVP\<close> with a signed-in user throws the SDK's error
  about the reference, which it builds before the lookup, not \<^verbatim>\<open>Event not found\<close>.
\<close>

theorem toggleRSVP_rejected_id_is_not_NotFound:
  "[] \<notin> set (map event_id (events (mockProvider [createMockEvent 0 []])))
   \<and> toggleRSVP firestore_doc (Some (mockUser ''u1'' ''user'')) [] 1000 None
         (mockProvider [createMockEvent 0 []])
       = (Inl (Error (''Invalid document reference. Document references must have an even ''
              @ ''number of segments, but events has 1.'')), mockProvider [createMockEvent 0 []])
   \<and> toggleRSVP firestore_doc (Some (mockUser ''u1'' ''user'')) [] 1000 None
         (mockProvider [createMockEvent 0 []])
       \<noteq> (Inl (Error ''Event not found''), mockProvider [createMockEvent 0 []])"
  by (simp add: toggleRSVP_def empty_id_doc mockProvider_def createMockEvent_def)

text \<open>
  Claim C5, amended.  With no signed-in user \<^verbatim>\<open>toggleRSVP\<close> throws the error \<^verbatim>\<open>User must
  be logged in\<close> (the specification's AuthenticationRequired).  With a user: when the
  SDK refuses the id as a document reference, it throws an error with the SDK's
  message; when the SDK accepts the id and no event of the list has it, it throws
  \<^verbatim>\<open>Event not found\<close> (NotFound).  In all three cases the provider's state afterwards
  is the state before: the list is unchanged and no call was sent.
\<close>

theorem toggleRSVP_failures:
  "toggleRSVP doc None eid now resp s = (Inl (Error ''User must be logged in''), s)
   \<and> (doc ''events'' eid = Inl m \<longrightarrow>
        toggleRSVP doc (Some u) eid now resp s = (Inl (Error m), s))
   \<and> (doc ''events'' eid = Inr ref \<and> eid \<notin> set (map event_id (events s)) \<longrightarrow>
        toggleRSVP doc (Some u) eid now resp s = (Inl (Error ''Event not found''), s))"
proof -
  have "find (\<lambda>x. event_id x = eid) (events s) = None" if "eid \<notin> set (map event_id (events s))"
    using that by (auto simp: find_None_iff)
  then show ?thesis by (auto simp: toggleRSVP_def)
qed

theorem toggleRSVP_failures_witness:
  "toggleRSVP firestore_doc None ''test-event-1'' 1000 None (mockProvider [createMockEvent 0 []])
     = (Inl (Error ''User must be logged in''), mockProvider [createMockEvent 0 []])
   \<and> firestore_doc ''events'' ''a/b''
       = Inl (''Invalid document reference. Document references must have an even ''
              @ ''number of segments, but events/a/b has 3.'')
   \<and> toggleRSVP firestore_doc (Some (mockUser ''u1'' ''user'')) ''a/b'' 1000 None
         (mockProvider [createMockEvent 0 []])
       = (Inl (Error (''Invalid document reference. Document references must have an even ''
              @ ''number of segments, but events/a/b has 3.'')), mockProvider [createMockEvent 0 []])
   \<and> firestore_doc ''events'' ''gone'' = Inr [''events'', ''gone'']
   \<and> ''gone'' \<notin> set (map event_id (events (mockProvider [createMockEvent 0 []])))
   \<and> toggleRSVP firestore_doc (Some (mockUser ''u1'' ''user'')) ''gone'' 1000 None
         (mockProvider [createMockEvent 0 []])
     = (Inl (Error ''Event not found''), mockProvider [createMockEvent 0 []])
   \<and> outbox (mockProvider [createMockEvent 0 []]) = []"
proof -
  let ?s = "mockProvider [createMockEvent 0 []]"
  have h: "''gone'' \<notin> set (map event_id (events ?s))"
    by (simp add: mockProvider_def createMockEvent_def)
  have o: "outbox ?s = []" by (simp add: mockProvider_def)
  have d1: "firestore_doc ''events'' ''a/b''
       = Inl (''Invalid document reference. Document references must have an even ''
              @ ''number of segments, but events/a/b has 3.'')"
    by code_simp
  have d2: "firestore_doc ''events'' ''gone'' = Inr [''events'', ''gone'']"
    by code_simp
  from toggleRSVP_failures [where doc = firestore_doc and eid = "''test-event-1''" and now = 1000
      and resp = None and s = ?s]
  have a: "toggleRSVP firestore_doc None ''test-event-1'' 1000 None ?s
     = (Inl (Error ''User must be logged in''), ?s)"
    by simp
  from toggleRSVP_failures [where doc = firestore_doc and eid = "''a/b''" and now = 1000
      and resp = None and s = ?s and u = "mockUser ''u1'' ''user''"
      and m = "''Invalid document reference. Document references must have an even ''
              @ ''number of segments, but events/a/b has 3.''"] d1
  have b: "toggleRSVP firestore_doc (Some (mockUser ''u1'' ''user'')) ''a/b'' 1000 None ?s
       = (Inl (Error (''Invalid document reference. Document references must have an even ''
              @ ''number of segments, but events/a/b has 3.'')), ?s)"
    by simp
  from toggleRSVP_failures [where doc = firestore_doc and eid = "''gone''" and now = 1000
      and resp = None and s = ?s and u = "mockUser ''u1'' ''user''" and ref = "[''events'', ''gone'']"]
    h d2
  have c: "toggleRSVP firestore_doc (Some (mockUser ''u1'' ''user'')) ''gone'' 1000 None ?s
     = (Inl (Error ''Event not found''), ?s)"
    by simp
  from a b c d1 d2 h o show ?thesis by simp
qed

section \<open>Properties of refresh and creation\<close>

text \<open>
  Claim C9 as the specification states it, with the loading flag unchanged, fails:
  \<^verbatim>\<open>refreshEvents\<close> on a provider that is not loading leaves it loading.
\<close>

theorem refreshEvents_changes_loading:
  "loading (refreshEvents (mockProvider [createMockEvent 0 []]))
     \<noteq> loading (mockProvider [createMockEvent 0 []])"
  by (simp add: refreshEvents_def mockProvider_def)

text \<open>
  Claim C9, amended.  \<^verbatim>\<open>refreshEvents\<close> leaves the list and the local cache unchanged,
  starts no cache write and sends no call to the document store; it sets the loading
  flag.
\<close>

theorem refreshEvents_effect:
  "events (refreshEvents s) = events s \<and> cache (refreshEvents s) = cache s
   \<and> pending (refreshEvents s) = pending s
   \<and> outbox (refreshEvents s) = outbox s \<and> loading (refreshEvents s) = True"
  by (simp add: refreshEvents_def)

theorem refreshEvents_effect_witness:
  "events (refreshEvents (mockProvider [createMockEvent 0 []])) = [createMockEvent 0 []]
   \<and> outbox (refreshEvents (mockProvider [createMockEvent 0 []])) = []
   \<and> loading (refreshEvents (mockProvider [createMockEvent 0 []])) = True"
  using refreshEvents_effect [of "mockProvider [createMockEvent 0 []]"]
  by (simp add: mockProvider_def)

text \<open>
  Claim C10.  \<^verbatim>\<open>createEvent\<close> throws and leaves the state as it was (no call sent)
  when there is no signed-in user or the user's role is not \<^verbatim>\<open>organizer\<close>.  For an
  organizer it sends one \<^verbatim>\<open>addDoc\<close> whose document has \<^verbatim>\<open>rsvpCount\<close> 0, an empty
  \<^verbatim>\<open>rsvpList\<close>, the caller's uid as \<^verbatim>\<open>hostId\<close> and display name as \<^verbatim>\<open>hostName\<close>, and
  the fields of the argument unchanged; so the count equals the length of the list.
\<close>

theorem createEvent_establishes_invariant:
  "createEvent None d t1 t2 resp s = (Inl (Error ''User must be logged in''), s)
   \<and> (role u \<noteq> ''organizer'' \<longrightarrow>
        createEvent (Some u) d t1 t2 resp s = (Inl (Error ''Only organizers can create events''), s))
   \<and> (role u = ''organizer'' \<longrightarrow>
        (\<exists>newEvent.
           createEvent (Some u) d t1 t2 resp s =
             ((case resp of None \<Rightarrow> Inr () | Some m \<Rightarrow> Inl (Error m)),
              s\<lparr>outbox := outbox s @ [AddDoc ''events'' newEvent]\<rparr>)
         \<and> rsvpCount newEvent = 0 \<and> rsvpList newEvent = []
         \<and> hostId newEvent = uid u \<and> hostName newEvent = displayName u
         \<and> rsvpCount newEvent = int (length (rsvpList newEvent))
         \<and> EventData.truncate newEvent = d))"
proof -
  let ?n = "EventData.extend d (EventDoc.fields (uid u) (displayName u) 0 [] (DateMs t1) (DateMs t2))"
  have n: "rsvpCount ?n = 0 \<and> rsvpList ?n = [] \<and> hostId ?n = uid u \<and> hostName ?n = displayName u
           \<and> EventData.truncate ?n = d"
    by (simp add: EventData.defs EventDoc.defs)
  have c: "createEvent (Some u) d t1 t2 resp s =
             ((case resp of None \<Rightarrow> Inr () | Some m \<Rightarrow> Inl (Error m)),
              s\<lparr>outbox := outbox s @ [AddDoc ''events'' ?n]\<rparr>)"
    if "role u = ''organizer''"
    using that by (simp add: createEvent_def Let_def split: option.splits)
  have a: "createEvent None d t1 t2 resp s = (Inl (Error ''User must be logged in''), s)"
    by (simp add: createEvent_def)
  have b: "createEvent (Some u) d t1 t2 resp s = (Inl (Error ''Only organizers can create events''), s)"
    if "role u \<noteq> ''organizer''"
    using that by (simp add: createEvent_def)
  from a b c n show ?thesis by auto
qed

theorem createEvent_establishes_invariant_witness:
  "role (mockUser ''u1'' ''user'') \<noteq> ''organizer''
   \<and> createEvent (Some (mockUser ''u1'' ''user'')) mockEventData 1000 1001 None
         (mockProvider ([] :: Event list))
       = (Inl (Error ''Only organizers can create events''), mockProvider [])
   \<and> role (mockUser ''host'' ''organizer'') = ''organizer''
   \<and> (\<exists>newEvent.
         outbox (snd (createEvent (Some (mockUser ''host'' ''organizer'')) mockEventData 1000 1001 None
           (mockProvider ([] :: Event list)))) = [AddDoc ''events'' newEvent]
       \<and> rsvpCount newEvent = 0 \<and> rsvpList newEvent = [] \<and> hostId newEvent = ''host'')"
proof -
  have r1: "role (mockUser ''u1'' ''user'') \<noteq> ''organizer''" by (simp add: mockUser_def)
  have r2: "role (mockUser ''host'' ''organizer'') = ''organizer''" by (simp add: mockUser_def)
  have o: "outbox (mockProvider ([] :: Event list)) = []" by (simp add: mockProvider_def)
  have u: "uid (mockUser ''host'' ''organizer'') = ''host''" by (simp add: mockUser_def)
  from createEvent_establishes_invariant [where u = "mockUser ''u1'' ''user''"
      and d = mockEventData and ?t1.0 = 1000 and ?t2.0 = 1001 and resp = None
      and s = "mockProvider ([] :: Event list)"] r1
  have a: "createEvent (Some (mockUser ''u1'' ''user'')) mockEventData 1000 1001 None
         (mockProvider ([] :: Event list))
       = (Inl (Error ''Only organizers can create events''), mockProvider [])"
    by simp
  from createEvent_establishes_invariant [where u = "mockUser ''host'' ''organizer''"
      and d = mockEventData and ?t1.0 = 1000 and ?t2.0 = 1001 and resp = None
      and s = "mockProvider ([] :: Event list)"] r2
  have b: "\<exists>newEvent.
         outbox (snd (createEvent (Some (mockUser ''host'' ''organizer'')) mockEventData 1000 1001 None
           (mockProvider ([] :: Event list)))) = [AddDoc ''events'' newEvent]
       \<and> rsvpCount newEvent = 0 \<and> rsvpList newEvent = [] \<and> hostId newEvent = ''host''"
    by (auto simp: o u)
  from r1 a r2 b show ?thesis by blast
qed

section \<open>Properties of the filter projection\<close>

lemma applyFilters_filter:
  "applyFilters L T evs q f = filter (passes_filters L T q f) evs"
  unfolding applyFilters_def Let_def passes_filters_def
  by (auto split: option.splits intro: filter_cong)

lemma sample_search:
  "map event_id (applyFilters asciiLower asciiTrim [createMockEvent 0 [], mockRun] ''yoga''
     \<lparr>filter_type = Some Yoga, filter_difficulty = None, dateRange = None\<rparr>) = [''test-event-1'']"
  by code_simp

lemma sample_type_difficulty:
  "map event_id (applyFilters asciiLower asciiTrim [createMockEvent 0 [], mockRun] []
     \<lparr>filter_type = Some Yoga, filter_difficulty = Some Beginner, dateRange = None\<rparr>)
     = [''test-event-1'']"
  by code_simp

text \<open>
  Claim C6.  For every list, search text and filter setting, and whatever the two
  string built-ins compute, filtering the filtered list again with the same inputs
  returns the same list.
\<close>

theorem applyFilters_idempotent:
  "applyFilters toLowerCase trim (applyFilters toLowerCase trim evs searchQuery filters)
       searchQuery filters
     = applyFilters toLowerCase trim evs searchQuery filters"
  by (simp add: applyFilters_filter)

theorem applyFilters_idempotent_witness:
  "map event_id
     (applyFilters asciiLower asciiTrim
        (applyFilters asciiLower asciiTrim [createMockEvent 0 [], mockRun] ''yoga''
           \<lparr>filter_type = Some Yoga, filter_difficulty = None, dateRange = None\<rparr>)
        ''yoga'' \<lparr>filter_type = Some Yoga, filter_difficulty = None, dateRange = None\<rparr>)
     = [''test-event-1'']"
  using applyFilters_idempotent [of asciiLower asciiTrim "[createMockEvent 0 [], mockRun]"
      "''yoga''" "\<lparr>filter_type = Some Yoga, filter_difficulty = None, dateRange = None\<rparr>"]
    sample_search
  by simp

text \<open>
  Claim C7.  With the type filter \<open>t\<close> and the difficulty filter \<open>d\<close> both set, the
  result is the list filtered by \<open>t\<close> alone restricted to the events that the list
  filtered by \<open>d\<close> alone contains, in the input's order; as sets, the intersection
  of the two.  This holds for any search text and date range shared by the three
  calls, in particular with neither set.
\<close>

theorem applyFilters_type_and_difficulty:
  "applyFilters toLowerCase trim evs searchQuery
       \<lparr>filter_type = Some t, filter_difficulty = Some d, dateRange = r\<rparr>
     = filter (\<lambda>e. e \<in> set (applyFilters toLowerCase trim evs searchQuery
                 \<lparr>filter_type = None, filter_difficulty = Some d, dateRange = r\<rparr>))
         (applyFilters toLowerCase trim evs searchQuery
            \<lparr>filter_type = Some t, filter_difficulty = None, dateRange = r\<rparr>)
   \<and> set (applyFilters toLowerCase trim evs searchQuery
            \<lparr>filter_type = Some t, filter_difficulty = Some d, dateRange = r\<rparr>)
     = set (applyFilters toLowerCase trim evs searchQuery
              \<lparr>filter_type = Some t, filter_difficulty = None, dateRange = r\<rparr>)
       \<inter> set (applyFilters toLowerCase trim evs searchQuery
              \<lparr>filter_type = None, filter_difficulty = Some d, dateRange = r\<rparr>)"
  by (auto simp: applyFilters_filter passes_filters_def intro: filter_cong)

theorem applyFilters_type_and_difficulty_witness:
  "map event_id
     (filter (\<lambda>e. e \<in> set (applyFilters asciiLower asciiTrim [createMockEvent 0 [], mockRun] []
                 \<lparr>filter_type = None, filter_difficulty = Some Beginner, dateRange = None\<rparr>))
         (applyFilters asciiLower asciiTrim [createMockEvent 0 [], mockRun] []
            \<lparr>filter_type = Some Yoga, filter_difficulty = None, dateRange = None\<rparr>))
     = [''test-event-1'']"
  using applyFilters_type_and_difficulty [of asciiLower asciiTrim
      "[createMockEvent 0 [], mockRun]" "[]" Yoga Beginner None]
    sample_type_difficulty
  by simp

section \<open>Properties of decoding and of the snapshot handler\<close>

lemma toDate_Inr:
  "toDate v = Inr x \<Longrightarrow> \<exists>ms. v = Some (Timestamp ms) \<and> x = DateV (DateMs ms)"
  by (erule toDate.elims) auto

lemma is_timestamp_toDate:
  "is_timestamp v \<Longrightarrow> \<exists>ms. v = Some (Timestamp ms) \<and> toDate v = Inr (DateV (DateMs ms))"
  by (erule is_timestamp.elims) auto

text \<open>
  What a decoded object holds: the three dates converted, every other property of the
  body as it is, and under \<^verbatim>\<open>id\<close> the body's own \<^verbatim>\<open>id\<close> if it has one, else the
  backend identifier.
\<close>

lemma decodeDoc_fields:
  assumes "decodeDoc d = Inr ev"
  shows "\<exists>dt ca ua.
           data d ''dateTime'' = Some (Timestamp dt) \<and> data d ''createdAt'' = Some (Timestamp ca)
         \<and> data d ''updatedAt'' = Some (Timestamp ua)
         \<and> ev = (\<lambda>k. if k = ''dateTime'' then Some (DateV (DateMs dt))
                     else if k = ''createdAt'' then Some (DateV (DateMs ca))
                     else if k = ''updatedAt'' then Some (DateV (DateMs ua))
                     else if k = ''id''
                       then (case data d ''id'' of None \<Rightarrow> Some (Str (doc_id d)) | Some v \<Rightarrow> Some v)
                     else data d k)"
proof -
  from assms obtain x y z where
    x: "toDate (data d ''dateTime'') = Inr x" and y: "toDate (data d ''createdAt'') = Inr y"
    and z: "toDate (data d ''updatedAt'') = Inr z"
    and ev: "ev = ((([''id'' \<mapsto> Str (doc_id d)] ++ data d)(''dateTime'' \<mapsto> x))
                           (''createdAt'' \<mapsto> y, ''updatedAt'' \<mapsto> z))"
    by (auto simp: decodeDoc_def split: sum.splits)
  from toDate_Inr [OF x] toDate_Inr [OF y] toDate_Inr [OF z] ev
  show ?thesis
    by (auto simp: fun_eq_iff map_add_def split: option.splits)
qed

lemma has_timestamps_decodes:
  assumes "has_timestamps d"
  shows "\<exists>ev. decodeDoc d = Inr ev"
  using assms unfolding has_timestamps_def decodeDoc_def
  by (auto dest!: is_timestamp_toDate)

lemma forEach_push_map:
  assumes "map decodeDoc docs = map Inr evs"
  shows "forEach_push docs acc = Inr (acc @ evs)"
  using assms
proof (induction docs arbitrary: acc evs)
  case Nil
  then show ?case by simp
next
  case (Cons d ds)
  then obtain ev evs' where
    e: "evs = ev # evs'" "decodeDoc d = Inr ev" "map decodeDoc ds = map Inr evs'"
    by (cases evs) auto
  from Cons.IH [OF e(3), of "acc @ [ev]"] e show ?case by simp
qed

lemma all_decodable:
  assumes "\<forall>d \<in> set docs. has_timestamps d"
  shows "\<exists>evs. map decodeDoc docs = map Inr evs"
  using assms
proof (induction docs)
  case Nil
  then show ?case by simp
next
  case (Cons d ds)
  then obtain evs where "map decodeDoc ds = map Inr evs" by auto
  moreover from Cons.prems obtain ev where "decodeDoc d = Inr ev"
    using has_timestamps_decodes by auto
  ultimately have "map decodeDoc (d # ds) = map Inr (ev # evs)" by simp
  then show ?case by blast
qed

lemma decoded_dateTime_le:
  assumes "decodeDoc a = Inr x" and "decodeDoc b = Inr y"
    and "timestamp_le (data a ''dateTime'') (data b ''dateTime'')"
  shows "dateTime_le x y"
  using decodeDoc_fields [OF assms(1)] decodeDoc_fields [OF assms(2)] assms(3)
  by (auto simp: dateTime_le_def)

lemma decoded_sorted:
  assumes "map decodeDoc docs = map Inr evs" and "ordered_by_dateTime docs"
  shows "sorted_wrt dateTime_le evs"
  using assms
proof (induction docs arbitrary: evs)
  case Nil
  then show ?case by simp
next
  case (Cons d ds)
  then obtain ev evs' where
    e: "evs = ev # evs'" "decodeDoc d = Inr ev" "map decodeDoc ds = map Inr evs'"
    by (cases evs) auto
  from Cons.prems(2) have o: "ordered_by_dateTime ds"
    and h: "\<forall>b \<in> set ds. timestamp_le (data d ''dateTime'') (data b ''dateTime'')"
    by (simp_all add: ordered_by_dateTime_def)
  have "dateTime_le ev y" if "y \<in> set evs'" for y
  proof -
    from that have "Inr y \<in> set (map decodeDoc ds)" using e(3) by simp
    then obtain b where b: "b \<in> set ds" "decodeDoc b = Inr y" by auto
    with h have ts: "timestamp_le (data d ''dateTime'') (data b ''dateTime'')" by blast
    from e(2) b(2) ts show ?thesis by (rule decoded_dateTime_le)
  qed
  with Cons.IH [OF e(3) o] e(1) show ?case by simp
qed

text \<open>
  Claim C3, evaluated at a document whose body holds an \<^verbatim>\<open>id\<close> field.  The claim says
  the decoded event's \<^verbatim>\<open>id\<close> is the backend identifier \<^verbatim>\<open>abc123\<close>.  The source writes
  \<^verbatim>\<open>id: doc.id\<close> before the spread of the body, so the body's \<^verbatim>\<open>event-1\<close> replaces it,
  in the snapshot handler, in \<^verbatim>\<open>getEvents\<close> and in \<^verbatim>\<open>getEvent\<close>.
\<close>

theorem decodeDoc_body_id_overrides:
  "map_sum (\<lambda>e. e) (\<lambda>ev. ev ''id'') (decodeDoc idBodyDoc) = Inr (Some (Str ''event-1''))
   \<and> doc_id idBodyDoc = ''abc123''
   \<and> map_sum (\<lambda>e. e) (map (\<lambda>ev. ev ''id'')) (getEvents [idBodyDoc])
       = Inr [Some (Str ''event-1'')]
   \<and> map_sum (\<lambda>e. e) (map_option (\<lambda>ev. ev ''id'')) (getEvent (Some idBodyDoc))
       = Inr (Some (Some (Str ''event-1'')))
   \<and> map (\<lambda>ev. ev ''id'')
        (events (snd (onSnapshot_next (\<lambda>evs. Some []) [idBodyDoc] (mockProvider []))))
       = [Some (Str ''event-1'')]"
  by (simp add: onSnapshot_next_def getEvents_def getEvent_def decodeDoc_def idBodyDoc_def
      mockBody_def mockProvider_def cacheEvents_def)

text \<open>
  Claim C4 as the specification states it, for every snapshot, fails: a snapshot with
  a document that lacks \<^verbatim>\<open>createdAt\<close> makes the handler throw before it sets
  anything, and the previous list stays.
\<close>

theorem onSnapshot_next_keeps_stale_list:
  "onSnapshot_next (\<lambda>evs. Some []) [undecodableDoc] (mockProvider [mockBody])
     = (Some TypeError, mockProvider [mockBody])
   \<and> events (mockProvider [mockBody]) = [mockBody]"
  by (simp add: onSnapshot_next_def decodeDoc_def undecodableDoc_def mockBody_def
      mockProvider_def)

lemma setItem_done_pending: "pending (setItem_done ok s) = tl (pending s)"
  by (simp add: setItem_done_def split: list.splits)

lemma fold_setItem_done_pending:
  "pending (fold setItem_done oks s) = drop (length oks) (pending s)"
proof (induction oks arbitrary: s)
  case Nil
  then show ?case by simp
next
  case (Cons ok oks)
  then show ?case by (simp add: setItem_done_pending drop_Suc)
qed

text \<open>
  Claim C4, amended.  For every snapshot whose documents all hold timestamps in
  \<^verbatim>\<open>dateTime\<close>, \<^verbatim>\<open>createdAt\<close> and \<^verbatim>\<open>updatedAt\<close>, and over any previous state: the handler
  does not throw; the list becomes exactly the decoded documents of the snapshot, in
  the snapshot's order; loading is cleared; when the snapshot is in ascending order of
  \<^verbatim>\<open>dateTime\<close>, as the subscription's query asks of the backend, the list is sorted
  ascending by \<^verbatim>\<open>dateTime\<close>.  The cache itself is as before when the handler returns:
  if the serialiser returns a text for the list, a write of that text under the key
  \<^verbatim>\<open>events\<close> has been started.  Once the writes started earlier have completed, that
  write, if the cache accepts it, puts the text in place of what the key held; if the
  cache refuses it, the cache keeps what it held.
\<close>

theorem onSnapshot_next_replaces:
  assumes "\<forall>d \<in> set snapshot. has_timestamps d"
  shows "\<exists>evs. map decodeDoc snapshot = map Inr evs
            \<and> onSnapshot_next JSON_stringify snapshot s =
                (None, s\<lparr>events := evs, loading := False,
                         pending := pending s @
                           (case JSON_stringify evs of
                              None \<Rightarrow> []
                            | Some txt \<Rightarrow> [(''events'', txt)])\<rparr>)
            \<and> (ordered_by_dateTime snapshot \<longrightarrow> sorted_wrt dateTime_le evs)
            \<and> (\<forall>txt oks. JSON_stringify evs = Some txt \<and> length oks = length (pending s) \<longrightarrow>
                  cache (setItem_done True (fold setItem_done oks
                           (snd (onSnapshot_next JSON_stringify snapshot s)))) ''events''
                    = Some txt
                  \<and> cache (setItem_done False (fold setItem_done oks
                           (snd (onSnapshot_next JSON_stringify snapshot s))))
                    = cache (fold setItem_done oks
                           (snd (onSnapshot_next JSON_stringify snapshot s))))"
proof -
  from all_decodable [OF assms] obtain evs where m: "map decodeDoc snapshot = map Inr evs" ..
  let ?s' = "s\<lparr>events := evs, loading := False,
                pending := pending s @
                  (case JSON_stringify evs of None \<Rightarrow> [] | Some txt \<Rightarrow> [(''events'', txt)])\<rparr>"
  from forEach_push_map [OF m, of "[]"]
  have h: "onSnapshot_next JSON_stringify snapshot s = (None, ?s')"
    by (simp add: onSnapshot_next_def cacheEvents_def split: option.splits)
  have w: "cache (setItem_done True (fold setItem_done oks ?s')) ''events'' = Some x
         \<and> cache (setItem_done False (fold setItem_done oks ?s')) = cache (fold setItem_done oks ?s')"
    if "JSON_stringify evs = Some x" and "length oks = length (pending s)" for x oks
  proof -
    from that have "pending (fold setItem_done oks ?s') = [(''events'', x)]"
      by (simp add: fold_setItem_done_pending)
    then show ?thesis by (simp add: setItem_done_def)
  qed
  from m h w decoded_sorted [OF m] show ?thesis by auto
qed

theorem onSnapshot_next_replaces_witness:
  "has_timestamps mockDoc \<and> has_timestamps laterDoc \<and> ordered_by_dateTime [mockDoc, laterDoc]
   \<and> (\<exists>evs. map decodeDoc [mockDoc, laterDoc] = map Inr evs
         \<and> onSnapshot_next mockStringify [mockDoc, laterDoc] (mockProvider [mockBody])
             = (None, \<lparr>events = evs, loading = False, cache = (\<lambda>k. None),
                       pending = [(''events'', ''[2]'')], outbox = []\<rparr>)
         \<and> sorted_wrt dateTime_le evs
         \<and> cache (setItem_done True
                    (snd (onSnapshot_next mockStringify [mockDoc, laterDoc] (mockProvider [mockBody]))))
               ''events'' = Some ''[2]'')"
proof -
  have h1: "has_timestamps mockDoc" by (simp add: has_timestamps_def mockDoc_def mockBody_def)
  have h2: "has_timestamps laterDoc" by (simp add: has_timestamps_def laterDoc_def mockBody_def)
  have h: "\<forall>d \<in> set [mockDoc, laterDoc]. has_timestamps d" using h1 h2 by simp
  have o: "ordered_by_dateTime [mockDoc, laterDoc]"
    by (simp add: ordered_by_dateTime_def mockDoc_def laterDoc_def mockBody_def)
  have p: "pending (mockProvider [mockBody]) = []" by (simp add: mockProvider_def)
  from onSnapshot_next_replaces [OF h, of mockStringify "mockProvider [mockBody]"] o
  obtain evs where e: "map decodeDoc [mockDoc, laterDoc] = map Inr evs"
    "onSnapshot_next mockStringify [mockDoc, laterDoc] (mockProvider [mockBody])
       = (None, (mockProvider [mockBody])\<lparr>events := evs, loading := False,
            pending := pending (mockProvider [mockBody]) @
              (case mockStringify evs of None \<Rightarrow> [] | Some txt \<Rightarrow> [(''events'', txt)])\<rparr>)"
    "sorted_wrt dateTime_le evs"
    "\<forall>txt oks. mockStringify evs = Some txt \<and> length oks = length (pending (mockProvider [mockBody])) \<longrightarrow>
        cache (setItem_done True (fold setItem_done oks
                 (snd (onSnapshot_next mockStringify [mockDoc, laterDoc] (mockProvider [mockBody])))))
          ''events'' = Some txt
        \<and> cache (setItem_done False (fold setItem_done oks
                 (snd (onSnapshot_next mockStringify [mockDoc, laterDoc] (mockProvider [mockBody])))))
          = cache (fold setItem_done oks
                 (snd (onSnapshot_next mockStringify [mockDoc, laterDoc] (mockProvider [mockBody]))))"
    by blast
  from e(1) have "length evs = 2"
    using length_map [of Inr evs] length_map [of decodeDoc "[mockDoc, laterDoc]"] by simp
  moreover have "decimal 2 = ''2''" by code_simp
  ultimately have st: "mockStringify evs = Some ''[2]''" by (simp add: mockStringify_def)
  with e(2) have a: "onSnapshot_next mockStringify [mockDoc, laterDoc] (mockProvider [mockBody])
             = (None, \<lparr>events = evs, loading = False, cache = (\<lambda>k. None),
                       pending = [(''events'', ''[2]'')], outbox = []\<rparr>)"
    by (simp add: mockProvider_def)
  from e(4) st p have b: "cache (setItem_done True
                    (snd (onSnapshot_next mockStringify [mockDoc, laterDoc] (mockProvider [mockBody]))))
               ''events'' = Some ''[2]''"
    by (metis fold_simps(1) length_0_conv)
  from e(1) e(3) h1 h2 o a b show ?thesis by blast
qed

section \<open>Properties of cache hydration\<close>

lemma map_revive_objects:
  "map_revive newDate (map JObj ms) =
     Inr (map (\<lambda>m. (spread (JObj m))
                       (''dateTime'' \<mapsto> DateV (newDate (m ''dateTime'')),
                        ''createdAt'' \<mapsto> DateV (newDate (m ''createdAt'')),
                        ''updatedAt'' \<mapsto> DateV (newDate (m ''updatedAt'')))) ms)"
  by (induction ms) (auto simp: revive_def fun_eq_iff)

text \<open>
  Claim C8.  Whatever the cache holds and whatever the parser and the date
  constructor do with it, \<^verbatim>\<open>loadCachedEvents\<close> throws nothing.  With no value under
  the key, or with a text the parser rejects, the state afterwards is the state
  before, so a list that was empty stays empty.  With a text that parses to an array
  of objects, as a serialised event list does, the list becomes those objects with
  their three date properties rebuilt.  The cache, its pending writes, the loading
  flag and the calls sent are never changed.
\<close>

theorem loadCachedEvents_never_throws:
  "fst (loadCachedEvents JSON_parse newDate s) = None
   \<and> (cache s ''events'' = None \<longrightarrow> snd (loadCachedEvents JSON_parse newDate s) = s)
   \<and> (cache s ''events'' = Some txt \<and> JSON_parse txt = None \<longrightarrow>
        snd (loadCachedEvents JSON_parse newDate s) = s)
   \<and> (cache s ''events'' = Some txt \<and> txt \<noteq> [] \<and> JSON_parse txt = Some (JArr (map JObj ms)) \<longrightarrow>
        snd (loadCachedEvents JSON_parse newDate s) =
          s\<lparr>events := map (\<lambda>m. (spread (JObj m))
                       (''dateTime'' \<mapsto> DateV (newDate (m ''dateTime'')),
                        ''createdAt'' \<mapsto> DateV (newDate (m ''createdAt'')),
                        ''updatedAt'' \<mapsto> DateV (newDate (m ''updatedAt'')))) ms\<rparr>)
   \<and> cache (snd (loadCachedEvents JSON_parse newDate s)) = cache s
   \<and> pending (snd (loadCachedEvents JSON_parse newDate s)) = pending s
   \<and> loading (snd (loadCachedEvents JSON_parse newDate s)) = loading s
   \<and> outbox (snd (loadCachedEvents JSON_parse newDate s)) = outbox s"
  by (auto simp: loadCachedEvents_def loadCachedEvents_try_def js_map_def map_revive_objects
      split: sum.splits option.splits json.splits if_splits)

theorem loadCachedEvents_never_throws_witness:
  "loadCachedEvents mockParse mockNewDate (mockProvider []) = (None, mockProvider [])
   \<and> cache ((mockProvider []) \<lparr>cache := [''events'' \<mapsto> ''{oops'']\<rparr>) ''events'' = Some ''{oops''
   \<and> mockParse ''{oops'' = None
   \<and> loadCachedEvents mockParse mockNewDate ((mockProvider []) \<lparr>cache := [''events'' \<mapsto> ''{oops'']\<rparr>)
       = (None, (mockProvider []) \<lparr>cache := [''events'' \<mapsto> ''{oops'']\<rparr>)
   \<and> map (\<lambda>ev. ev ''dateTime'') (events (snd (loadCachedEvents mockParse mockNewDate
         ((mockProvider []) \<lparr>cache := [''events'' \<mapsto> ''[{}]'']\<rparr>))))
       = [Some (DateV InvalidDate)]"
proof -
  let ?s0 = "mockProvider [] :: obj provider"
  let ?s1 = "?s0 \<lparr>cache := [''events'' \<mapsto> ''{oops'']\<rparr>"
  let ?s3 = "?s0 \<lparr>cache := [''events'' \<mapsto> ''[{}]'']\<rparr>"
  have c0: "cache ?s0 ''events'' = None" by (simp add: mockProvider_def)
  have c1: "cache ?s1 ''events'' = Some ''{oops''" by simp
  have p1: "mockParse ''{oops'' = None" by (simp add: mockParse_def)
  have a: "loadCachedEvents mockParse mockNewDate ?s0 = (None, ?s0)"
    using loadCachedEvents_never_throws [of mockParse mockNewDate ?s0] c0
    by (simp add: prod_eq_iff)
  have b: "loadCachedEvents mockParse mockNewDate ?s1 = (None, ?s1)"
    using loadCachedEvents_never_throws [of mockParse mockNewDate ?s1 "''{oops''"] c1 p1
    by (simp add: prod_eq_iff)
  have d: "map (\<lambda>ev. ev ''dateTime'') (events (snd (loadCachedEvents mockParse mockNewDate ?s3)))
       = [Some (DateV InvalidDate)]"
    using loadCachedEvents_never_throws [of mockParse mockNewDate ?s3 "''[{}]''" "[\<lambda>k. None]"]
    by (simp add: mockParse_def mockNewDate_def)
  from a b d c1 p1 show ?thesis by simp
qed

end
